theory Spec2Isabelle
  imports Main "HOL-Library.Extended_Nat" "HOL-Library.Multiset"
begin

section \<open>Python values used by \<open>backend/main.py\<close>\<close>

text \<open>
  A Python \<open>str\<close> is modelled as a \<open>string\<close> whose characters are the code points
  below 256. \<open>str.strip()\<close> without argument removes leading and trailing whitespace;
  \<open>isspace\<close> lists the code points below 256 that Python counts as whitespace.
\<close>

definition isspace :: "char \<Rightarrow> bool" where
  "isspace c = (c \<in> set [CHR 0x09, CHR 0x0A, CHR 0x0B, CHR 0x0C, CHR 0x0D,
                         CHR 0x1C, CHR 0x1D, CHR 0x1E, CHR 0x1F, CHR 0x20,
                         CHR 0x85, CHR 0xA0])"

definition lstrip :: "string \<Rightarrow> string" where
  "lstrip s = dropWhile isspace s"

definition rstrip :: "string \<Rightarrow> string" where
  "rstrip s = rev (dropWhile isspace (rev s))"

definition strip :: "string \<Rightarrow> string" where
  "strip s = rstrip (lstrip s)"

text \<open>
  The exceptions that reach the handlers of \<open>execute_code_safely\<close>, each with the text
  that \<open>str(e)\<close> gives. All of them derive from \<open>Exception\<close>; signals that derive from
  \<open>BaseException\<close> only (a keyboard interrupt of the server itself) are not part of
  the model.
\<close>

datatype exn =
    TimeoutExpired string
  | FileNotFoundError string
  | ValueError string
  | KeyError string
  | OtherException string

fun str_exn :: "exn \<Rightarrow> string" where
  "str_exn (TimeoutExpired m) = m"
| "str_exn (FileNotFoundError m) = m"
| "str_exn (ValueError m) = m"
| "str_exn (KeyError m) = m"
| "str_exn (OtherException m) = m"

section \<open>Resource limiter\<close>

text \<open>
  The limits of a process: for each resource a pair (soft, hard), where \<open>\<infinity>\<close> is
  \<open>RLIM_INFINITY\<close>. \<open>resource.setrlimit\<close> raises \<open>ValueError\<close> when the new soft limit
  exceeds the new hard limit, and when a process that is not the super-user tries to
  raise its hard limit; otherwise it stores the pair.
\<close>

datatype rlimit_resource = RLIMIT_CPU | RLIMIT_AS

record process =
  rlimits :: "rlimit_resource \<Rightarrow> enat \<times> enat"
  superuser :: bool

definition setrlimit :: "rlimit_resource \<Rightarrow> enat \<times> enat \<Rightarrow> process \<Rightarrow> exn + process" where
  "setrlimit r limits p =
     (if snd limits < fst limits
      then Inl (ValueError ''current limit exceeds maximum limit'')
      else if snd (rlimits p r) < snd limits \<and> \<not> superuser p
      then Inl (ValueError ''not allowed to raise maximum limit'')
      else Inr (p\<lparr>rlimits := (rlimits p)(r := limits)\<rparr>))"

definition limit_resources :: "process \<Rightarrow> exn + process" where
  "limit_resources p =
     (case setrlimit RLIMIT_CPU (2, 2) p of
        Inl e \<Rightarrow> Inl e
      | Inr p1 \<Rightarrow> setrlimit RLIMIT_AS (512 * 1024 * 1024, 512 * 1024 * 1024) p1)"

section \<open>Subprocesses, the host and the state of the server\<close>

text \<open>
  A call of \<open>subprocess.run\<close>: the argument vector and the keyword arguments that
  \<open>execute_code_safely\<close> passes. \<open>preexec_fn\<close> is the callable run in the child between
  fork and exec, \<open>None\<close> when the keyword is absent.
\<close>

record spawn_request =
  args :: "string list"
  capture_output :: bool
  text_mode :: bool
  timeout :: nat
  preexec_fn :: "(process \<Rightarrow> exn + process) option"

record completed_process =
  returncode :: int
  stdout :: string
  stderr :: string

text \<open>
  What the program reads from its host, for one request: the interpreter path, the
  platform name, the two readings of \<open>timeit.default_timer\<close>, the peak that
  \<open>tracemalloc\<close> reports, the time stamp of the leaderboard entry, and what
  \<open>subprocess.run\<close> does with a request (it returns a completed process or raises).
  Python's float operations on the timer readings (subtraction, \<open>round(x, n)\<close>,
  formatting) are parameters over an arbitrary type \<open>'f\<close> of floats.
\<close>

record 'f host =
  sys_executable :: string
  platform_system :: string
  timer_before :: 'f
  timer_after :: 'f
  traced_peak :: nat
  run_result :: "spawn_request \<Rightarrow> exn + completed_process"
  utcnow_isoformat :: string
  float_sub :: "'f \<Rightarrow> 'f \<Rightarrow> 'f"
  float_round :: "'f \<Rightarrow> nat \<Rightarrow> 'f"
  float_str :: "'f \<Rightarrow> string"

record 'f entry =
  e_username :: string
  e_code :: string
  e_language :: string
  e_score :: int
  e_runtime :: 'f
  e_memory :: nat
  e_timestamp :: string

text \<open>
  The mutable state: whether \<open>tracemalloc\<close> is tracing, the calls of \<open>subprocess.run\<close>
  made so far (oldest first), and the content of \<open>leaderboard.json\<close>.
\<close>

record 'f world =
  tracing :: bool
  spawned :: "spawn_request list"
  leaderboard_file :: "'f entry list"

definition tracemalloc_start :: "'f world \<Rightarrow> 'f world" where
  "tracemalloc_start w = w\<lparr>tracing := True\<rparr>"

definition tracemalloc_stop :: "'f world \<Rightarrow> 'f world" where
  "tracemalloc_stop w = w\<lparr>tracing := False\<rparr>"

definition get_traced_memory_peak :: "'f host \<Rightarrow> 'f world \<Rightarrow> nat" where
  "get_traced_memory_peak h w = (if tracing w then traced_peak h else 0)"

definition subprocess_run ::
    "'f host \<Rightarrow> spawn_request \<Rightarrow> 'f world \<Rightarrow> (exn + completed_process) \<times> 'f world" where
  "subprocess_run h req w = (run_result h req, w\<lparr>spawned := spawned w @ [req]\<rparr>)"

section \<open>Language registry\<close>

definition LANGUAGE_COMMANDS :: "'f host \<Rightarrow> (string \<times> string list) list" where
  "LANGUAGE_COMMANDS h =
     [(''python'', [sys_executable h, ''-c'']),
      (''javascript'', [''node'', ''-e'']),
      (''java'', [''java'', ''Main'']),
      (''cpp'', [''./a.out''])]"

definition registered :: "'f host \<Rightarrow> string \<Rightarrow> bool" where
  "registered h language = (map_of (LANGUAGE_COMMANDS h) language \<noteq> None)"

section \<open>Execution supervisor\<close>

datatype 'f outcome =
    Error (error: string)
  | Success (runtime: 'f) (memory: nat) (output_text: string)

text \<open>
  The \<open>if\<close>/\<open>elif\<close> chain of \<open>execute_code_safely\<close>: the call of \<open>subprocess.run\<close> made
  for each language, \<open>None\<close> for the final \<open>else\<close> branch, which spawns nothing.
\<close>

definition child_request :: "'f host \<Rightarrow> string \<Rightarrow> string \<Rightarrow> spawn_request option" where
  "child_request h code language =
     (let is_macos = (platform_system h = ''Darwin'');
          is_windows = (platform_system h = ''Windows'')
      in if language = ''python'' then
           Some \<lparr>args = [''python3'', ''-c'', code],
                 capture_output = True, text_mode = True, timeout = 2,
                 preexec_fn = (if is_macos \<or> is_windows then None else Some limit_resources)\<rparr>
         else if language = ''javascript'' then
           Some \<lparr>args = [''node'', ''-e'', code],
                 capture_output = True, text_mode = True, timeout = 2,
                 preexec_fn = (if is_macos \<or> is_windows then None else Some limit_resources)\<rparr>
         else if language = ''java'' then
           Some \<lparr>args = [''java'', ''Main''],
                 capture_output = True, text_mode = True, timeout = 2,
                 preexec_fn = None\<rparr>
         else if language = ''cpp'' then
           Some \<lparr>args = [''./a.out''],
                 capture_output = True, text_mode = True, timeout = 2,
                 preexec_fn = None\<rparr>
         else None)"

text \<open>The body of the \<open>try\<close> block: \<open>Inl\<close> is an exception leaving the block.\<close>

definition try_block ::
    "'f host \<Rightarrow> string \<Rightarrow> string \<Rightarrow> 'f world \<Rightarrow> (exn + 'f outcome) \<times> 'f world" where
  "try_block h code language w =
     (let w1 = tracemalloc_start w;
          start_time = timer_before h
      in case child_request h code language of
           None \<Rightarrow> (Inr (Error ''Unsupported language''), w1)
         | Some req \<Rightarrow>
             (case subprocess_run h req w1 of
                (Inl e, w2) \<Rightarrow> (Inl e, w2)
              | (Inr result, w2) \<Rightarrow>
                  (let end_time = timer_after h;
                       memory_used = get_traced_memory_peak h w2;
                       w3 = tracemalloc_stop w2
                   in if returncode result \<noteq> 0 then
                        (Inr (Error (''Runtime Error:'' @ [CHR 0x0A] @ strip (stderr result))), w3)
                      else
                        (Inr (Success (float_round h (float_sub h end_time start_time) 4)
                                      (memory_used div 1024)
                                      (strip (stdout result))), w3))))"

text \<open>The three \<open>except\<close> clauses, in the order of the source.\<close>

fun except_clauses :: "exn \<Rightarrow> exn + 'f outcome" where
  "except_clauses (TimeoutExpired m) =
     Inr (Error ''Code execution timed out (infinite loop or too slow).'')"
| "except_clauses (FileNotFoundError m) =
     Inr (Error ''Execution file not found. Ensure compilation was successful.'')"
| "except_clauses e = Inr (Error (''Unexpected error: '' @ str_exn e))"

definition execute_code_safely ::
    "'f host \<Rightarrow> string \<Rightarrow> string \<Rightarrow> 'f world \<Rightarrow> (exn + 'f outcome) \<times> 'f world" where
  "execute_code_safely h code language w =
     (if \<not> registered h language then (Inr (Error ''Unsupported language''), w)
      else case try_block h code language w of
             (Inl e, w') \<Rightarrow> (except_clauses e, w')
           | (Inr r, w') \<Rightarrow> (Inr r, w'))"

section \<open>Leaderboard\<close>

definition load_leaderboard :: "'f world \<Rightarrow> 'f entry list" where
  "load_leaderboard w = leaderboard_file w"

definition save_leaderboard :: "'f entry list \<Rightarrow> 'f world \<Rightarrow> 'f world" where
  "save_leaderboard leaderboard w = w\<lparr>leaderboard_file := leaderboard\<rparr>"

text \<open>
  \<open>sorted(xs, key=k, reverse=True)\<close>: the sort is stable, and with \<open>reverse=True\<close>
  elements with equal keys keep their order. CPython reverses the list, sorts it
  stably in ascending order and reverses the result.
\<close>

definition sorted_reverse :: "('a \<Rightarrow> int) \<Rightarrow> 'a list \<Rightarrow> 'a list" where
  "sorted_reverse key xs = rev (sort_key key (rev xs))"

text \<open>
  \<open>performance["runtime"]\<close> and \<open>performance["memory"]\<close> raise \<open>KeyError\<close> on a dict that
  has only the key \<open>error\<close>; the file is not written then.
\<close>

definition update_leaderboard ::
    "'f host \<Rightarrow> string \<Rightarrow> string \<Rightarrow> string \<Rightarrow> int \<Rightarrow> 'f outcome \<Rightarrow> 'f world
      \<Rightarrow> (exn + unit) \<times> 'f world" where
  "update_leaderboard h username code language score performance w =
     (let leaderboard = load_leaderboard w;
          timestamp = utcnow_isoformat h
      in case performance of
           Error m \<Rightarrow> (Inl (KeyError ''runtime''), w)
         | Success rt mem out \<Rightarrow>
             (let new_entry = \<lparr>e_username = username, e_code = code, e_language = language,
                               e_score = score, e_runtime = rt, e_memory = mem,
                               e_timestamp = timestamp\<rparr>;
                  leaderboard = leaderboard @ [new_entry];
                  leaderboard = sorted_reverse e_score leaderboard;
                  leaderboard = take 3 leaderboard
              in (Inr (), save_leaderboard leaderboard w)))"

section \<open>The \<open>/analyze\<close> endpoint\<close>

record code_snippet =
  snippet_username :: string
  snippet_code :: string
  snippet_language :: string

text \<open>\<open>str.lower()\<close> on code points below 256.\<close>

definition lower_char :: "char \<Rightarrow> char" where
  "lower_char c =
     (let n = (of_char c :: nat)
      in if (65 \<le> n \<and> n \<le> 90) \<or> (192 \<le> n \<and> n \<le> 214) \<or> (216 \<le> n \<and> n \<le> 222)
         then char_of (n + 32) else c)"

definition lower :: "string \<Rightarrow> string" where
  "lower s = map lower_char s"

text \<open>\<open>str(n)\<close> for a non-negative integer: its decimal digits.\<close>

fun str_nat :: "nat \<Rightarrow> string" where
  "str_nat n =
     (if n < 10 then [''0123456789'' ! n]
      else str_nat (n div 10) @ [''0123456789'' ! (n mod 10)])"

text \<open>
  The four readability scorers are pure functions of the submitted text, built on float
  division and regular expressions; the endpoint only adds up their values, so they
  are parameters here.
\<close>

record scorers =
  evaluate_comments :: "string \<Rightarrow> int"
  evaluate_formatting :: "string \<Rightarrow> int"
  evaluate_naming_conventions :: "string \<Rightarrow> int"
  evaluate_complexity :: "string \<Rightarrow> int"

record results =
  comments_score :: int
  formatting_score :: int
  naming_score :: int
  complexity_score :: int

definition generate_suggestions :: "results \<Rightarrow> string list" where
  "generate_suggestions rs =
     (if comments_score rs < 50
      then [''Add more meaningful comments to explain your code.''] else []) @
     (if formatting_score rs < 70
      then [''Fix inconsistent formatting, long lines, or incorrect indentation.''] else [])"

record analysis =
  a_username :: string
  readability_score :: int
  breakdown :: results
  suggestions :: "string list"
  a_runtime :: string
  a_memory :: string
  a_output :: string

datatype response = ErrorBody string | AnalysisBody analysis

text \<open>
  How a call of the endpoint can fail: with the \<open>HTTPException\<close> it raises itself, or
  with an exception that it does not handle.
\<close>

datatype failure = HTTPException (status_code: nat) (detail: string) | Unhandled exn

definition analyze_code ::
    "'f host \<Rightarrow> scorers \<Rightarrow> code_snippet \<Rightarrow> 'f world \<Rightarrow> (failure + response) \<times> 'f world" where
  "analyze_code h sc snippet w =
     (let code = strip (snippet_code snippet);
          language = lower (snippet_language snippet);
          username = strip (snippet_username snippet)
      in if code = [] \<or> username = [] then
           (Inl (HTTPException 400 ''Code snippet and username cannot be empty.''), w)
         else
           (case execute_code_safely h code language w of
              (Inl e, w1) \<Rightarrow> (Inl (Unhandled e), w1)
            | (Inr (Error m), w1) \<Rightarrow> (Inr (ErrorBody m), w1)
            | (Inr (Success rt mem out), w1) \<Rightarrow>
                (let performance = Success rt mem out;
                     rs = \<lparr>comments_score = evaluate_comments sc code,
                           formatting_score = evaluate_formatting sc code,
                           naming_score = evaluate_naming_conventions sc code,
                           complexity_score = evaluate_complexity sc code\<rparr>;
                     total_score = (comments_score rs + formatting_score rs
                                    + naming_score rs + complexity_score rs) div 4;
                     suggs = generate_suggestions rs
                 in case update_leaderboard h username code language total_score performance w1 of
                      (Inl e, w2) \<Rightarrow> (Inl (Unhandled e), w2)
                    | (Inr u, w2) \<Rightarrow>
                        (Inr (AnalysisBody
                           \<lparr>a_username = username, readability_score = total_score,
                            breakdown = rs, suggestions = suggs,
                            a_runtime = float_str h rt @ '' seconds'',
                            a_memory = str_nat mem @ '' KB'',
                            a_output = out\<rparr>), w2))))"

section \<open>Concrete hosts and states\<close>

text \<open>
  A Linux host on which every child prints \<open>4\<close> and exits with code 0. Timer readings are
  integers counting units of a ten-thousandth of a second, on which rounding to four
  decimals changes nothing.
\<close>

definition linux_host :: "int host" where
  "linux_host =
     \<lparr>sys_executable = ''/usr/bin/python3'', platform_system = ''Linux'',
      timer_before = 10000, timer_after = 10312, traced_peak = 20500,
      run_result = (\<lambda>req. Inr \<lparr>returncode = 0, stdout = ''4'' @ [CHR 0x0A], stderr = []\<rparr>),
      utcnow_isoformat = ''2025-01-01T00:00:00'',
      float_sub = (\<lambda>a b. a - b), float_round = (\<lambda>x n. x), float_str = (\<lambda>x. str_nat (nat x))\<rparr>"

definition failing_host :: "exn + completed_process \<Rightarrow> int host" where
  "failing_host r = linux_host\<lparr>run_result := (\<lambda>req. r)\<rparr>"

definition idle_world :: "int world" where
  "idle_world = \<lparr>tracing = False, spawned = [], leaderboard_file = []\<rparr>"

definition unlimited_process :: process where
  "unlimited_process = \<lparr>rlimits = (\<lambda>r. (\<infinity>, \<infinity>)), superuser = False\<rparr>"

text \<open>A leaderboard file that already holds three ranked entries.\<close>

definition ranked_entry :: "string \<Rightarrow> int \<Rightarrow> int entry" where
  "ranked_entry name s =
     \<lparr>e_username = name, e_code = ''pass'', e_language = ''python'', e_score = s,
      e_runtime = 10, e_memory = 5, e_timestamp = ''2024-12-30T00:00:00''\<rparr>"

definition ranked_world :: "int world" where
  "ranked_world =
     \<lparr>tracing = False, spawned = [],
      leaderboard_file = [ranked_entry ''alice'' 90, ranked_entry ''carol'' 60,
                          ranked_entry ''dave'' 50]\<rparr>"

definition blank_snippet :: code_snippet where
  "blank_snippet =
     \<lparr>snippet_username = ''bob'', snippet_code = ''   '', snippet_language = ''python''\<rparr>"

definition constant_scorers :: scorers where
  "constant_scorers =
     \<lparr>evaluate_comments = (\<lambda>c. 0), evaluate_formatting = (\<lambda>c. 100),
      evaluate_naming_conventions = (\<lambda>c. 100), evaluate_complexity = (\<lambda>c. 100)\<rparr>"

section \<open>Theorems\<close>

subsection \<open>Auxiliary facts\<close>

lemmas concrete_defs = execute_code_safely_def try_block_def subprocess_run_def
  tracemalloc_start_def tracemalloc_stop_def get_traced_memory_peak_def child_request_def
  registered_def LANGUAGE_COMMANDS_def linux_host_def failing_host_def idle_world_def
  strip_def lstrip_def rstrip_def isspace_def

lemma registered_iff:
  "registered h language \<longleftrightarrow> language \<in> {''python'', ''javascript'', ''java'', ''cpp''}"
  by (auto simp: registered_def LANGUAGE_COMMANDS_def)

lemma child_request_registered:
  "registered h language \<Longrightarrow> \<exists>req. child_request h code language = Some req"
  by (auto simp: registered_iff child_request_def Let_def)

text \<open>The two ways through the \<open>try\<close> statement once a child has been requested.\<close>

lemma run_raises:
  assumes "registered h language" "child_request h code language = Some req"
    and "run_result h req = Inl e"
  shows "execute_code_safely h code language w =
           (except_clauses e, w\<lparr>tracing := True, spawned := spawned w @ [req]\<rparr>)"
  using assms
  by (simp add: execute_code_safely_def try_block_def subprocess_run_def tracemalloc_start_def)

lemma run_completes:
  assumes "registered h language" "child_request h code language = Some req"
    and "run_result h req = Inr r"
  shows "execute_code_safely h code language w =
     (Inr (if returncode r \<noteq> 0 then Error (''Runtime Error:'' @ [CHR 0x0A] @ strip (stderr r))
           else Success (float_round h (float_sub h (timer_after h) (timer_before h)) 4)
                        (traced_peak h div 1024) (strip (stdout r))),
      w\<lparr>tracing := False, spawned := spawned w @ [req]\<rparr>)"
  using assms
  by (simp add: execute_code_safely_def try_block_def subprocess_run_def tracemalloc_start_def
        tracemalloc_stop_def get_traced_memory_peak_def)

text \<open>
  \<open>strip\<close> trims and does nothing else: the argument is the result between two runs of
  whitespace, and a non-empty result neither starts nor ends with whitespace.
\<close>

lemma strip_parts:
  "\<exists>a b. s = a @ strip s @ b \<and> (\<forall>c\<in>set a. isspace c) \<and> (\<forall>c\<in>set b. isspace c)"
proof -
  let ?l = "dropWhile isspace s"
  have 1: "s = takeWhile isspace s @ ?l" by simp
  have "rev ?l = takeWhile isspace (rev ?l) @ dropWhile isspace (rev ?l)" by simp
  then have "?l = rev (dropWhile isspace (rev ?l)) @ rev (takeWhile isspace (rev ?l))"
    by (metis rev_append rev_rev_ident)
  then have "s = takeWhile isspace s @ strip s @ rev (takeWhile isspace (rev ?l))"
    using 1 by (simp add: strip_def lstrip_def rstrip_def)
  moreover have "\<forall>c\<in>set (takeWhile isspace s). isspace c"
    by (auto dest: set_takeWhileD)
  moreover have "\<forall>c\<in>set (rev (takeWhile isspace (rev ?l))). isspace c"
    by (auto dest: set_takeWhileD)
  ultimately show ?thesis by blast
qed

lemma strip_ends:
  assumes "strip s \<noteq> []"
  shows "\<not> isspace (hd (strip s)) \<and> \<not> isspace (last (strip s))"
proof -
  let ?l = "dropWhile isspace s"
  let ?r = "dropWhile isspace (rev ?l)"
  from assms have r: "?r \<noteq> []" by (simp add: strip_def lstrip_def rstrip_def)
  have l: "?l \<noteq> []"
  proof
    assume "?l = []"
    then have "?r = []" by (simp only: rev.simps dropWhile.simps)
    with r show False by simp
  qed
  have "\<not> isspace (hd ?r)" using r by (rule hd_dropWhile)
  then have at_end: "\<not> isspace (last (strip s))"
    using r by (simp add: strip_def lstrip_def rstrip_def last_rev)
  have "\<not> isspace (hd ?l)" using l by (rule hd_dropWhile)
  moreover have "hd (strip s) = hd ?l"
  proof -
    have "rev ?l = takeWhile isspace (rev ?l) @ ?r" by simp
    then have "?l = rev ?r @ rev (takeWhile isspace (rev ?l))"
      by (metis rev_append rev_rev_ident)
    moreover have "rev ?r \<noteq> []" using r by simp
    ultimately have "hd ?l = hd (rev ?r)" by (metis hd_append2)
    then show ?thesis by (simp add: strip_def lstrip_def rstrip_def)
  qed
  ultimately show ?thesis using at_end by simp
qed

subsection \<open>Resource limiter\<close>

text \<open>
  C8: whenever \<open>limit_resources\<close> returns, the CPU-time limit of the process is 2 seconds,
  soft and hard, and its address-space limit is \<open>512 * 1024 * 1024\<close> bytes, soft and
  hard. It does return for the super-user and for every process whose current hard
  limits are not below these values.
\<close>

theorem limit_resources_sets_limits:
  "(limit_resources p = Inr p' \<longrightarrow>
      rlimits p' RLIMIT_CPU = (2, 2) \<and>
      rlimits p' RLIMIT_AS = (512 * 1024 * 1024, 512 * 1024 * 1024)) \<and>
   (superuser p \<or> (2 \<le> snd (rlimits p RLIMIT_CPU) \<and>
                    512 * 1024 * 1024 \<le> snd (rlimits p RLIMIT_AS))
      \<longrightarrow> (\<exists>q. limit_resources p = Inr q))"
  by (auto simp: limit_resources_def setrlimit_def split: sum.splits if_splits)

theorem limit_resources_sets_limits_witness:
  "\<exists>q. limit_resources unlimited_process = Inr q \<and>
        rlimits q RLIMIT_CPU = (2, 2) \<and>
        rlimits q RLIMIT_AS = (512 * 1024 * 1024, 512 * 1024 * 1024)"
proof -
  have "2 \<le> snd (rlimits unlimited_process RLIMIT_CPU) \<and>
        512 * 1024 * 1024 \<le> snd (rlimits unlimited_process RLIMIT_AS)"
    by (simp add: unlimited_process_def)
  then obtain q where q: "limit_resources unlimited_process = Inr q"
    using limit_resources_sets_limits[of unlimited_process] by blast
  then show ?thesis
    using limit_resources_sets_limits[of unlimited_process q] by simp
qed

text \<open>
  On a platform other than Darwin and Windows the children for \<open>python\<close> and
  \<open>javascript\<close> are spawned with \<open>limit_resources\<close> as their pre-exec step.
\<close>

lemma interpreter_children_limited:
  assumes "language = ''python'' \<or> language = ''javascript''"
    and "platform_system h \<noteq> ''Darwin''" "platform_system h \<noteq> ''Windows''"
  shows "\<exists>req. spawned (snd (execute_code_safely h code language w)) = spawned w @ [req]
               \<and> preexec_fn req = Some limit_resources"
  using assms
  by (auto simp: execute_code_safely_def try_block_def subprocess_run_def
        tracemalloc_start_def tracemalloc_stop_def child_request_def registered_iff Let_def
      split: sum.splits)

text \<open>
  C1: the claim asks for \<open>limit_resources\<close> as the pre-exec step of the child of each of
  the four registered languages. On a Linux host the children for \<open>java\<close> and \<open>cpp\<close>,
  both registered, are spawned with no pre-exec step at all.
\<close>

theorem compiled_children_spawned_without_limiter:
  "registered linux_host ''java'' \<and> registered linux_host ''cpp'' \<and>
   platform_system linux_host = ''Linux'' \<and>
   map preexec_fn
     (spawned (snd (execute_code_safely linux_host ''class Main {}'' ''java'' idle_world)))
     = [None] \<and>
   map preexec_fn
     (spawned (snd (execute_code_safely linux_host ''int main() {}'' ''cpp'' idle_world)))
     = [None]"
  by (simp add: concrete_defs)

subsection \<open>Outcomes of the supervisor\<close>



text \<open>
  C3: for a language identifier that is not registered, \<open>execute_code_safely\<close> returns
  the error outcome "Unsupported language" and leaves the state as it was: in
  particular no call of \<open>subprocess.run\<close> is added to the log of spawned processes.
\<close>

theorem unsupported_language_spawns_nothing:
  assumes "\<not> registered h language"
  shows "execute_code_safely h code language w = (Inr (Error ''Unsupported language''), w)"
  using assms by (simp add: execute_code_safely_def)

theorem unsupported_language_witness:
  "\<not> registered linux_host ''ruby'' \<and>
   execute_code_safely linux_host ''puts 1'' ''ruby'' idle_world
     = (Inr (Error ''Unsupported language''), idle_world)"
  using unsupported_language_spawns_nothing[of linux_host "''ruby''" "''puts 1''" idle_world]
  by (simp add: registered_def LANGUAGE_COMMANDS_def)

text \<open>
  C4: every call of \<open>execute_code_safely\<close> returns an outcome, an error or a success;
  no exception leaves the function, whatever \<open>subprocess.run\<close> returns or raises.
\<close>

theorem always_returns_outcome:
  "\<exists>out. fst (execute_code_safely h code language w) = Inr out"
proof (cases "registered h language")
  case False
  then show ?thesis by (simp add: execute_code_safely_def)
next
  case True
  then obtain req where req: "child_request h code language = Some req"
    using child_request_registered by blast
  show ?thesis
  proof (cases "run_result h req")
    case (Inl e)
    then show ?thesis using run_raises[OF True req Inl, of w] by (cases e) auto
  next
    case (Inr r)
    then show ?thesis using run_completes[OF True req Inr, of w] by simp
  qed
qed

theorem always_returns_outcome_witness:
  "\<exists>out. fst (execute_code_safely (failing_host (Inl (OtherException ''fork failed'')))
               ''print(1)'' ''python'' idle_world) = Inr out"
  using always_returns_outcome[of "failing_host (Inl (OtherException ''fork failed''))"
          "''print(1)''" "''python''" idle_world]
  by simp

subsection \<open>The memory tracer\<close>

text \<open>When the child completes, the tracer is stopped before the function returns.\<close>

lemma tracer_stopped_on_completion:
  assumes "registered h language" "child_request h code language = Some req"
    and "run_result h req = Inr r"
  shows "\<not> tracing (snd (execute_code_safely h code language w))"
  using run_completes[OF assms, of w] by simp

text \<open>When \<open>subprocess.run\<close> raises, the function returns with the tracer still running.\<close>

lemma tracer_running_after_exception:
  assumes "registered h language" "child_request h code language = Some req"
    and "run_result h req = Inl e"
  shows "tracing (snd (execute_code_safely h code language w))"
  using run_raises[OF assms, of w] by simp

text \<open>
  C5: the claim asks that the tracer started by the call is stopped on every return
  path. For a Python snippet whose child runs into the timeout, the call starts with
  the tracer off and returns with the tracer on.
\<close>

theorem tracer_left_running_on_timeout:
  "\<not> tracing idle_world \<and>
   tracing (snd (execute_code_safely (failing_host (Inl (TimeoutExpired ''2 seconds'')))
                   ''while True: pass'' ''python'' idle_world))"
  by (simp add: concrete_defs)

subsection \<open>Unexpected exceptions\<close>

text \<open>
  C6, as the claim states it, fails: when \<open>subprocess.run\<close> raises an \<open>OSError\<close> with the
  text "[Errno 24] Too many open files", the message of the returned error contains
  that text verbatim.
\<close>

theorem unexpected_error_counterexample:
  "fst (execute_code_safely
          (failing_host (Inl (OtherException ''[Errno 24] Too many open files'')))
          ''print(1)'' ''python'' idle_world)
     = Inr (Error (''Unexpected error: '' @ ''[Errno 24] Too many open files''))"
  by (simp add: concrete_defs)

text \<open>
  C6, amended: for every exception of \<open>subprocess.run\<close> other than \<open>TimeoutExpired\<close> and
  \<open>FileNotFoundError\<close>, the returned outcome is an error whose message is the fixed
  prefix "Unexpected error: " followed by the text of the exception.
\<close>

theorem unexpected_error_forwards_text:
  assumes "registered h language" "child_request h code language = Some req"
    and "run_result h req = Inl e"
    and "\<forall>m. e \<noteq> TimeoutExpired m" "\<forall>m. e \<noteq> FileNotFoundError m"
  shows "fst (execute_code_safely h code language w)
           = Inr (Error (''Unexpected error: '' @ str_exn e))"
  using run_raises[OF assms(1-3), of w] assms(4,5) by (cases e) auto

theorem unexpected_error_forwards_text_witness:
  "fst (execute_code_safely
          (failing_host (Inl (ValueError ''not allowed to raise maximum limit'')))
          ''1'' ''javascript'' idle_world)
     = Inr (Error ''Unexpected error: not allowed to raise maximum limit'')"
proof -
  let ?h = "failing_host (Inl (ValueError ''not allowed to raise maximum limit''))"
  let ?req = "\<lparr>args = [''node'', ''-e'', ''1''], capture_output = True, text_mode = True,
               timeout = 2, preexec_fn = Some limit_resources\<rparr>"
  have 1: "registered ?h ''javascript''" by (simp add: registered_iff)
  have 2: "child_request ?h ''1'' ''javascript'' = Some ?req"
    by (simp add: child_request_def failing_host_def linux_host_def)
  have 3: "run_result ?h ?req = Inl (ValueError ''not allowed to raise maximum limit'')"
    by (simp add: failing_host_def)
  show ?thesis
    using unexpected_error_forwards_text[OF 1 2 3, of idle_world] by simp
qed

subsection \<open>Launch commands\<close>

text \<open>
  For \<open>javascript\<close>, \<open>java\<close> and \<open>cpp\<close> the child is spawned with the command of the
  registry, followed by the snippet for \<open>javascript\<close>.
\<close>

lemma launch_command_from_registry:
  assumes "language \<in> {''javascript'', ''java'', ''cpp''}"
  shows "\<exists>req cmd. child_request h code language = Some req \<and>
           map_of (LANGUAGE_COMMANDS h) language = Some cmd \<and>
           args req = cmd @ (if language = ''javascript'' then [code] else [])"
  using assms by (auto simp: child_request_def LANGUAGE_COMMANDS_def Let_def)

text \<open>
  C7: the claim asks that the child of every registered language is spawned with the
  command that \<open>LANGUAGE_COMMANDS\<close> records for it. On a host whose \<open>sys.executable\<close> is
  \<open>/usr/bin/python3\<close> the registry records that path for \<open>python\<close>, and the child is
  spawned with the command \<open>python3\<close>.
\<close>

theorem python_command_differs_from_registry:
  "map_of (LANGUAGE_COMMANDS linux_host) ''python'' = Some [''/usr/bin/python3'', ''-c''] \<and>
   map args (spawned (snd (execute_code_safely linux_host ''print(1)'' ''python'' idle_world)))
     = [[''python3'', ''-c'', ''print(1)'']]"
  by (simp add: concrete_defs)

subsection \<open>Leaderboard\<close>

lemma sorted_reverse_descending:
  "sorted_wrt (\<lambda>a b. key b \<le> key a) (sorted_reverse key xs)"
proof -
  have "sorted (map key (sort_key key (rev xs)))" by (rule sorted_sort_key)
  then have "sorted_wrt (\<lambda>a b. key a \<le> key b) (sort_key key (rev xs))"
    by (simp add: sorted_map)
  then show ?thesis by (simp add: sorted_reverse_def sorted_wrt_rev)
qed

lemma length_filter_sorted_reverse:
  "length (filter P (sorted_reverse key xs)) = length (filter P xs)"
proof -
  have "mset (filter P (sorted_reverse key xs)) = mset (filter P xs)"
    by (simp add: sorted_reverse_def)
  then show ?thesis by (metis size_mset)
qed

text \<open>
  In a list in descending order of key, an element among the first \<open>n\<close> has fewer than
  \<open>n\<close> elements with a greater key.
\<close>

lemma kept_in_descending_prefix:
  fixes key :: "'a \<Rightarrow> int"
  assumes "sorted_wrt (\<lambda>a b. key b \<le> key a) ys" "x \<in> set (take n ys)"
  shows "length (filter (\<lambda>e. key x < key e) ys) < n"
  using assms
proof (induction ys arbitrary: n)
  case Nil
  then show ?case by simp
next
  case (Cons y ys)
  then obtain m where n: "n = Suc m" by (cases n) auto
  from Cons.prems have below: "\<forall>e\<in>set ys. key e \<le> key y"
    and rest: "sorted_wrt (\<lambda>a b. key b \<le> key a) ys"
    by auto
  from Cons.prems n have "x = y \<or> x \<in> set (take m ys)" by auto
  then show ?case
  proof
    assume "x = y"
    with below have "filter (\<lambda>e. key x < key e) ys = []"
      by (auto simp: filter_empty_conv)
    with \<open>x = y\<close> n show ?thesis by simp
  next
    assume "x \<in> set (take m ys)"
    from Cons.IH[OF rest this] n show ?thesis by simp
  qed
qed

text \<open>
  C9: after a call of \<open>update_leaderboard\<close> that returns, the stored leaderboard has at
  most 3 entries and is in non-increasing order of score; and if the new entry is in
  it, then fewer than 3 of the entries stored before have a greater score.
\<close>

theorem update_leaderboard_keeps_top_three:
  assumes "update_leaderboard h username code language score performance w = (Inr u, w')"
  shows "length (leaderboard_file w') \<le> 3 \<and>
         sorted_wrt (\<lambda>a b. e_score b \<le> e_score a) (leaderboard_file w') \<and>
         (\<lparr>e_username = username, e_code = code, e_language = language, e_score = score,
           e_runtime = runtime performance, e_memory = memory performance,
           e_timestamp = utcnow_isoformat h\<rparr> \<in> set (leaderboard_file w')
            \<longrightarrow> length (filter (\<lambda>e. score < e_score e) (leaderboard_file w)) < 3)"
proof (cases performance)
  case (Error m)
  with assms show ?thesis by (simp add: update_leaderboard_def)
next
  case (Success rt mem out)
  define new_entry where "new_entry =
     \<lparr>e_username = username, e_code = code, e_language = language,
      e_score = score, e_runtime = rt, e_memory = mem, e_timestamp = utcnow_isoformat h\<rparr>"
  define ys where "ys = sorted_reverse e_score (leaderboard_file w @ [new_entry])"
  from assms Success have w': "leaderboard_file w' = take 3 ys"
    by (auto simp: update_leaderboard_def load_leaderboard_def save_leaderboard_def
          Let_def ys_def new_entry_def)
  have desc: "sorted_wrt (\<lambda>a b. e_score b \<le> e_score a) ys"
    unfolding ys_def by (rule sorted_reverse_descending)
  have len: "length (leaderboard_file w') \<le> 3" using w' by simp
  have ord: "sorted_wrt (\<lambda>a b. e_score b \<le> e_score a) (leaderboard_file w')"
    using desc w' by (simp add: sorted_wrt_take)
  have kept: "length (filter (\<lambda>e. score < e_score e) (leaderboard_file w)) < 3"
    if "new_entry \<in> set (leaderboard_file w')"
  proof -
    from that w' have "new_entry \<in> set (take 3 ys)" by simp
    from kept_in_descending_prefix[OF desc this]
    have "length (filter (\<lambda>e. e_score new_entry < e_score e) ys) < 3" .
    then have "length (filter (\<lambda>e. e_score new_entry < e_score e)
                 (leaderboard_file w @ [new_entry])) < 3"
      by (simp only: ys_def length_filter_sorted_reverse)
    then show ?thesis by (simp add: new_entry_def)
  qed
  from len ord kept Success show ?thesis by (simp add: new_entry_def)
qed

text \<open>
  A new entry with score 70 arrives at a leaderboard that holds scores 90, 60 and 50: it
  is stored second, and the entry with score 50 is dropped.
\<close>

theorem update_leaderboard_keeps_top_three_witness:
  "\<exists>w'. update_leaderboard linux_host ''bob'' ''print(1)'' ''python'' 70 (Success 312 20 ''1'')
          ranked_world = (Inr (), w') \<and>
        map e_username (leaderboard_file w') = [''alice'', ''bob'', ''carol''] \<and>
        length (leaderboard_file w') \<le> 3 \<and>
        sorted_wrt (\<lambda>a b. e_score b \<le> e_score a) (leaderboard_file w') \<and>
        length (filter (\<lambda>e. 70 < e_score e) (leaderboard_file ranked_world)) < 3"
proof -
  let ?w' = "ranked_world\<lparr>leaderboard_file :=
      [ranked_entry ''alice'' 90,
       \<lparr>e_username = ''bob'', e_code = ''print(1)'', e_language = ''python'', e_score = 70,
        e_runtime = 312, e_memory = 20, e_timestamp = ''2025-01-01T00:00:00''\<rparr>,
       ranked_entry ''carol'' 60]\<rparr>"
  have run: "update_leaderboard linux_host ''bob'' ''print(1)'' ''python'' 70
               (Success 312 20 ''1'') ranked_world = (Inr (), ?w')"
    by (simp add: update_leaderboard_def load_leaderboard_def save_leaderboard_def
          sorted_reverse_def ranked_world_def ranked_entry_def linux_host_def)
  have names: "map e_username (leaderboard_file ?w') = [''alice'', ''bob'', ''carol'']"
    by (simp add: ranked_entry_def)
  have new: "\<lparr>e_username = ''bob'', e_code = ''print(1)'', e_language = ''python'',
      e_score = 70, e_runtime = runtime (Success (312::int) 20 ''1''),
      e_memory = memory (Success (312::int) 20 ''1''),
      e_timestamp = utcnow_isoformat linux_host\<rparr> \<in> set (leaderboard_file ?w')"
    by (simp add: linux_host_def)
  from update_leaderboard_keeps_top_three[OF run] new
  have props: "length (leaderboard_file ?w') \<le> 3 \<and>
      sorted_wrt (\<lambda>a b. e_score b \<le> e_score a) (leaderboard_file ?w') \<and>
      length (filter (\<lambda>e. 70 < e_score e) (leaderboard_file ranked_world)) < 3"
    by blast
  show ?thesis
  proof (intro exI conjI)
    show "update_leaderboard linux_host ''bob'' ''print(1)'' ''python'' 70
               (Success 312 20 ''1'') ranked_world = (Inr (), ?w')"
      by (rule run)
    show "map e_username (leaderboard_file ?w') = [''alice'', ''bob'', ''carol'']"
      by (rule names)
    show "length (leaderboard_file ?w') \<le> 3" using props by blast
    show "sorted_wrt (\<lambda>a b. e_score b \<le> e_score a) (leaderboard_file ?w')"
      using props by blast
    show "length (filter (\<lambda>e. 70 < e_score e) (leaderboard_file ranked_world)) < 3"
      using props by blast
  qed
qed

subsection \<open>The \<open>/analyze\<close> endpoint\<close>

text \<open>
  A request that passes the check is executed and ranked: the language is lower-cased,
  the user name stripped, and the new entry is written to the leaderboard.
\<close>

lemma analyze_code_accepts_snippet:
  "fst (analyze_code linux_host constant_scorers
          \<lparr>snippet_username = '' bob '', snippet_code = ''print(2+2)'',
           snippet_language = ''Python''\<rparr> ranked_world)
     = Inr (AnalysisBody
        \<lparr>a_username = ''bob'', readability_score = 75,
         breakdown = \<lparr>comments_score = 0, formatting_score = 100,
                      naming_score = 100, complexity_score = 100\<rparr>,
         suggestions = [''Add more meaningful comments to explain your code.''],
         a_runtime = ''312 seconds'', a_memory = ''20 KB'', a_output = ''4''\<rparr>)"
  by code_simp

lemma analyze_code_ranks_snippet:
  "map e_username (leaderboard_file (snd (analyze_code linux_host constant_scorers
          \<lparr>snippet_username = '' bob '', snippet_code = ''print(2+2)'',
           snippet_language = ''Python''\<rparr> ranked_world)))
     = [''alice'', ''bob'', ''carol'']"
  by code_simp

text \<open>
  C10: when the code or the user name of the request is empty after \<open>strip\<close>, the
  endpoint raises \<open>HTTPException\<close> with status 400 and the state is the one before the
  call: no \<open>subprocess.run\<close> has been added to the log, and the leaderboard file is
  unchanged.
\<close>

theorem analyze_code_rejects_blank:
  assumes "strip (snippet_code snippet) = [] \<or> strip (snippet_username snippet) = []"
  shows "analyze_code h sc snippet w
           = (Inl (HTTPException 400 ''Code snippet and username cannot be empty.''), w)"
  using assms by (auto simp: analyze_code_def Let_def)

theorem analyze_code_rejects_blank_witness:
  "strip (snippet_code blank_snippet) = [] \<and>
   analyze_code linux_host constant_scorers blank_snippet ranked_world
     = (Inl (HTTPException 400 ''Code snippet and username cannot be empty.''), ranked_world)"
proof -
  have blank: "strip (snippet_code blank_snippet) = []"
    by (simp add: blank_snippet_def strip_def lstrip_def rstrip_def isspace_def)
  then show ?thesis
    using analyze_code_rejects_blank[of blank_snippet linux_host constant_scorers ranked_world]
    by simp
qed

end
